theory Spec2Isabelle
  imports Complex_Main "HOL-Library.Word" "HOL-Library.Multiset"
begin

section \<open>Data model (src/interfaces.ts, src/config.ts)\<close>

text \<open>
  Conventions of the embedding.
  \<^item> An ethers \<open>BigNumber\<close> is an unbounded signed integer: \<open>int\<close>. Its \<open>div\<close>
    truncates towards zero and throws on a zero divisor.
  \<^item> A JavaScript \<open>number\<close> is an IEEE double. It is modelled by the real number it
    denotes: comparisons and signs are those of the doubles, the rounding of each
    operation, \<open>NaN\<close> and the infinities are not modelled. A quotient by zero, an
    infinity or \<open>NaN\<close> in JavaScript, is 0 here; the only one is the priority of an
    estimate whose debt is worth nothing.
  \<^item> An address is the 20-byte value that the hexadecimal string of the source denotes.
  \<^item> A thrown value is an \<open>exn\<close> carrying its message; a function that can throw
    returns \<open>exn + 'a\<close>, with \<open>Inl\<close> for the throw.
  \<^item> \<open>Date.now()\<close> and the remote reads (RPC, HTTP) are answers of a \<open>World\<close>.
\<close>

type_synonym address = "160 word"
type_synonym BigNumber = int
type_synonym number = real
type_synonym bytes = "8 word list"

datatype exn = Error string

record Asset =
  symbol :: string
  address :: address
  decimals :: nat
  amount :: BigNumber
  amountUsd :: number
  lastUpdateTimestamp :: int
  priceSource :: "string option"
  liquidationBonus :: "number option"
  liquidationThreshold :: "number option"

record LiquidationTarget =
  user :: address
  healthFactor :: BigNumber
  totalCollateralBase :: BigNumber
  totalDebtBase :: BigNumber
  collateralAssets :: "Asset list"
  debtAssets :: "Asset list"
  eModeCategoryId :: int

record PriceData =
  assetAddress :: address
  aaveOraclePrice :: BigNumber
  dexPrice :: "BigNumber option"
  externalApiPrice :: "BigNumber option"
  timestamp :: int
  discrepancyPercentage :: "number option"

record LiquidationProfitCalculation =
  target :: LiquidationTarget
  debtAsset :: Asset
  collateralAsset :: Asset
  debtToCover :: BigNumber
  collateralToReceive :: BigNumber
  liquidationBonus :: number
  estimatedProfitUsd :: number
  estimatedGasCostUsd :: number
  netProfitUsd :: number
  profitable :: bool
  executionPriority :: number

record Receipt =
  status :: int
  transactionHash :: string
  gasUsed :: BigNumber
  effectiveGasPrice :: BigNumber

record ExecutionResult =
  success :: bool
  transactionHash :: "string option"
  error :: "string option"
  gasUsed :: "BigNumber option"
  gasCostWei :: "BigNumber option"
  profitAmount :: "BigNumber option"
  profitUsd :: "number option"
  timestamp :: int

record FlashLoanParams =
  assets :: "address list"
  amounts :: "BigNumber list"
  interestRateModes :: "int list"
  receiver :: address
  params :: bytes
  referralCode :: int

text \<open>
  One invocation of \<open>pool.flashLoan\<close>: the flash-loan parameters, the wallet's address
  (\<open>onBehalfOf\<close>) and the overrides \<open>gasLimit\<close> and \<open>gasPrice\<close>.
\<close>

record FlashLoanCall =
  loan :: FlashLoanParams
  onBehalfOf :: address
  overrideGasLimit :: int
  overrideGasPrice :: BigNumber

text \<open>The fields of \<open>config\<close> that the modelled functions read.\<close>

record Config =
  minProfitUsd :: number
  maxGasPriceGwei :: number
  priceDifferenceThreshold :: number
  closeFactorHfThreshold :: BigNumber
  aavePoolAddress :: address

text \<open>
  The answers of the outside world during one call of an entry point: the Aave oracle
  (\<open>priceOracle.getAssetPrice\<close>), the two best-effort price sources of
  \<open>getPriceData\<close> (each the outcome of its \<open>try\<close> block, \<open>None\<close> when it
  failed or found nothing), the provider's gas price, the health-factor monitor's list
  of liquidatable positions, the pool's \<open>flashLoan\<close> (which answers with the hash of
  the transaction sent), the confirmation \<open>tx.wait(1)\<close>, and the clock, whose
  reading is taken as constant during one call.
\<close>

record World =
  getAssetPrice :: "address \<Rightarrow> exn + BigNumber"
  dexQuote :: "address \<Rightarrow> BigNumber option"
  externalQuote :: "address \<Rightarrow> BigNumber option"
  getGasPrice :: "exn + BigNumber"
  getLiquidatablePositions :: "exn + LiquidationTarget list"
  flashLoan :: "FlashLoanCall \<Rightarrow> exn + string"
  wait :: "string \<Rightarrow> exn + Receipt"
  dateNow :: int

section \<open>ethers helpers\<close>

text \<open>\<open>BigNumber.div\<close>: the quotient truncated towards zero.\<close>

definition bn_quot :: "BigNumber \<Rightarrow> BigNumber \<Rightarrow> BigNumber" where
  "bn_quot a b = sgn a * sgn b * (\<bar>a\<bar> div \<bar>b\<bar>)"

definition bn_div :: "BigNumber \<Rightarrow> BigNumber \<Rightarrow> exn + BigNumber" where
  "bn_div a b = (if b = 0 then Inl (Error ''division-by-zero'') else Inr (bn_quot a b))"

text \<open>
  \<open>BigNumber.from(n)\<close> for an integral JavaScript number, as \<open>mul\<close> applies it to
  a number argument: it throws outside the safe integer range.
\<close>

definition bn_from_number :: "int \<Rightarrow> exn + BigNumber" where
  "bn_from_number n =
     (if n \<ge> 9007199254740991 \<or> n \<le> - 9007199254740991 then Inl (Error ''overflow'')
      else Inr n)"

text \<open>\<open>parseFloat(ethers.utils.formatUnits(x, d))\<close>.\<close>

definition formatUnits :: "BigNumber \<Rightarrow> nat \<Rightarrow> number" where
  "formatUnits x d = real_of_int x / 10 ^ d"

section \<open>Price monitor (src/services/priceMonitor.ts)\<close>

type_synonym PriceCache = "address \<rightharpoonup> PriceData"

text \<open>
  \<open>getPriceData\<close>: a failure of the Aave oracle is rethrown and leaves the cache as it
  was; otherwise the quote is built, cached under the asset and returned. The
  discrepancy is computed only when an external price is present and positive.
\<close>

definition getPriceData :: "World \<Rightarrow> PriceCache \<Rightarrow> address \<Rightarrow> (exn + PriceData) \<times> PriceCache" where
  "getPriceData w cache a =
     (case getAssetPrice w a of
        Inl e \<Rightarrow> (Inl e, cache)
      | Inr oraclePrice \<Rightarrow>
          (let disc =
                 (case externalQuote w a of
                    None \<Rightarrow> None
                  | Some ext \<Rightarrow>
                      (let aavePrice = formatUnits oraclePrice 8;
                           extPrice = formatUnits ext 8
                       in if extPrice > 0
                          then Some (\<bar>(aavePrice - extPrice) / extPrice\<bar> * 100)
                          else None));
               priceData = \<lparr> assetAddress = a, aaveOraclePrice = oraclePrice,
                             dexPrice = dexQuote w a,
                             externalApiPrice = externalQuote w a,
                             timestamp = dateNow w,
                             discrepancyPercentage = disc \<rparr>
           in (Inr priceData, cache(a \<mapsto> priceData))))"

text \<open>
  \<open>hasPriceDiscrepancy\<close>: \<open>!cachedPrice || !cachedPrice.discrepancyPercentage\<close> is
  true for a missing entry, a missing figure and the figure \<open>0\<close>.
\<close>

definition hasPriceDiscrepancy :: "Config \<Rightarrow> PriceCache \<Rightarrow> address \<Rightarrow> bool" where
  "hasPriceDiscrepancy cfg cache a =
     (case cache a of
        None \<Rightarrow> False
      | Some cachedPrice \<Rightarrow>
          (case discrepancyPercentage cachedPrice of
             None \<Rightarrow> False
           | Some d \<Rightarrow>
               if d = 0 then False
               else d > priceDifferenceThreshold cfg))"

section \<open>Profit calculation (src/core/liquidator.ts, calculateLiquidationProfit)\<close>

definition closeFactorMultiplier :: "Config \<Rightarrow> LiquidationTarget \<Rightarrow> int" where
  "closeFactorMultiplier cfg tgt =
     (if healthFactor tgt < closeFactorHfThreshold cfg then 10000 else 5000)"

text \<open>The divisors \<open>10000\<close> and \<open>100\<close> are not zero, so these two \<open>div\<close> cannot throw.\<close>

definition maxDebtToCover :: "Config \<Rightarrow> LiquidationTarget \<Rightarrow> Asset \<Rightarrow> BigNumber" where
  "maxDebtToCover cfg tgt debt = bn_quot (amount debt * closeFactorMultiplier cfg tgt) 10000"

definition debtToCoverOf :: "Config \<Rightarrow> LiquidationTarget \<Rightarrow> Asset \<Rightarrow> BigNumber" where
  "debtToCoverOf cfg tgt debt = bn_quot (maxDebtToCover cfg tgt debt * 95) 100"

text \<open>
  \<open>collateralAsset.liquidationBonus || 1.05\<close>: the right operand is taken when the
  left one is \<open>undefined\<close> or \<open>0\<close>.
\<close>

definition liquidationBonusOf :: "Asset \<Rightarrow> number" where
  "liquidationBonusOf coll =
     (case Asset.liquidationBonus coll of
        None \<Rightarrow> 105 / 100
      | Some b \<Rightarrow> if b = 0 then 105 / 100 else b)"

text \<open>\<open>Math.floor(liquidationBonus * 10000)\<close>.\<close>

definition bonusBps :: "number \<Rightarrow> int" where
  "bonusBps b = \<lfloor>b * 10000\<rfloor>"

text \<open>
  The chain of \<open>mul\<close> and \<open>div\<close> that computes \<open>collateralToReceive\<close>, in the
  order of the source: the bonus is converted (and may overflow) before the division by
  the collateral price (which may be zero) is reached. A power of ten is not zero.
\<close>

definition collateralToReceiveOf ::
  "BigNumber \<Rightarrow> BigNumber \<Rightarrow> nat \<Rightarrow> number \<Rightarrow> BigNumber \<Rightarrow> nat \<Rightarrow> exn + BigNumber" where
  "collateralToReceiveOf debtPrice dtc collDecimals bonus collPrice debtDecimals =
     (case bn_from_number (bonusBps bonus) of
        Inl e \<Rightarrow> Inl e
      | Inr bps \<Rightarrow>
          (case bn_div (debtPrice * dtc * 10 ^ collDecimals * bps) collPrice of
             Inl e \<Rightarrow> Inl e
           | Inr q \<Rightarrow> Inr (bn_quot (bn_quot q (10 ^ debtDecimals)) 10000)))"

text \<open>
  \<open>calculateLiquidationProfit\<close>. The \<open>catch\<close> block logs and rethrows, so every
  throw of the body is a throw of the function. The price cache is threaded through the
  three \<open>getPriceData\<close> calls. \<open>flashLoanPremium\<close> is 9, \<open>gasLimit\<close> 1000000.
\<close>

definition calculateLiquidationProfit ::
  "Config \<Rightarrow> World \<Rightarrow> PriceCache \<Rightarrow> LiquidationTarget \<Rightarrow> Asset \<Rightarrow> Asset
     \<Rightarrow> (exn + LiquidationProfitCalculation) \<times> PriceCache" where
  "calculateLiquidationProfit cfg w cache tgt debt coll =
     (case getPriceData w cache (address debt) of
        (Inl e, c1) \<Rightarrow> (Inl e, c1)
      | (Inr debtAssetPrice, c1) \<Rightarrow>
     (case getPriceData w c1 (address coll) of
        (Inl e, c2) \<Rightarrow> (Inl e, c2)
      | (Inr collateralAssetPrice, c2) \<Rightarrow>
     (let dtc = debtToCoverOf cfg tgt debt;
          bonus = liquidationBonusOf coll
      in
     (case collateralToReceiveOf (aaveOraclePrice debtAssetPrice) dtc (decimals coll) bonus
             (aaveOraclePrice collateralAssetPrice) (decimals debt) of
        Inl e \<Rightarrow> (Inl e, c2)
      | Inr ctr \<Rightarrow>
     (let debtAmountUsd =
            formatUnits dtc (decimals debt) * formatUnits (aaveOraclePrice debtAssetPrice) 8;
          collateralAmountUsd =
            formatUnits ctr (decimals coll)
              * formatUnits (aaveOraclePrice collateralAssetPrice) 8;
          grossProfitUsd = collateralAmountUsd - debtAmountUsd;
          flashLoanCostUsd = debtAmountUsd * (9 / 10000)
      in
     (case getGasPrice w of
        Inl e \<Rightarrow> (Inl e, c2)
      | Inr gasPrice \<Rightarrow>
     (case getPriceData w c2 (aavePoolAddress cfg) of
        (Inl e, c3) \<Rightarrow> (Inl e, c3)
      | (Inr ethPrice, c3) \<Rightarrow>
     (let gasCostWei = gasPrice * 1000000;
          ethPriceUsd = formatUnits (aaveOraclePrice ethPrice) 8;
          gasCostUsd = formatUnits gasCostWei 18 * ethPriceUsd;
          netProfit = grossProfitUsd - flashLoanCostUsd - gasCostUsd;
          isProfitable = (netProfit > minProfitUsd cfg);
          priority = (if isProfitable then (netProfit / debtAmountUsd) * 100 else 0)
      in (Inr \<lparr> target = tgt, debtAsset = debt, collateralAsset = coll,
                  debtToCover = dtc, collateralToReceive = ctr,
                  liquidationBonus = bonus,
                  estimatedProfitUsd = grossProfitUsd,
                  estimatedGasCostUsd = gasCostUsd + flashLoanCostUsd,
                  netProfitUsd = netProfit,
                  profitable = isProfitable,
                  executionPriority = priority \<rparr>, c3)))))))))"

section \<open>Liquidation parameters on the wire\<close>

text \<open>
  \<open>ethers.utils.defaultAbiCoder.encode\<close> and Solidity's \<open>abi.decode\<close> are not code
  of the repository; they are modelled after the contract ABI specification for the
  static types used here. Every value occupies one 32-byte big-endian word: an address
  and a bool are left-padded with zeros, a \<open>uint256\<close> fills the word.
\<close>

text \<open>The \<open>k\<close> low-order bytes of an integer, most significant first.\<close>

fun be_bytes :: "nat \<Rightarrow> int \<Rightarrow> bytes" where
  "be_bytes 0 n = []"
| "be_bytes (Suc k) n = be_bytes k (n div 256) @ [word_of_int n]"

definition be_int :: "bytes \<Rightarrow> int" where
  "be_int bs = foldl (\<lambda>acc b. acc * 256 + uint b) 0 bs"

definition abi_address :: "address \<Rightarrow> bytes" where
  "abi_address a = be_bytes 32 (uint a)"

definition abi_bool :: "bool \<Rightarrow> bytes" where
  "abi_bool b = be_bytes 32 (if b then 1 else 0)"

text \<open>The coder of ethers rejects a \<open>uint256\<close> that is negative or too wide.\<close>

definition abi_uint256 :: "BigNumber \<Rightarrow> exn + bytes" where
  "abi_uint256 n =
     (if 0 \<le> n \<and> n < 2 ^ 256 then Inr (be_bytes 32 n)
      else Inl (Error ''value out-of-bounds''))"

text \<open>
  \<open>defaultAbiCoder.encode(['address', 'address', 'address', 'uint256', 'bool'], ...)\<close>.
\<close>

definition abi_encode_params ::
  "address \<Rightarrow> address \<Rightarrow> address \<Rightarrow> BigNumber \<Rightarrow> bool \<Rightarrow> exn + bytes" where
  "abi_encode_params collateral debt usr dtc receiveAToken =
     (case abi_uint256 dtc of
        Inl e \<Rightarrow> Inl e
      | Inr amountWord \<Rightarrow>
          Inr (abi_address collateral @ abi_address debt @ abi_address usr
               @ amountWord @ abi_bool receiveAToken))"

text \<open>
  The encoding step of \<open>executeLiquidation\<close> (liquidator.ts, lines 154 to 164): the last
  component is the literal \<open>false\<close>.
\<close>

definition encodeLiquidationParams :: "LiquidationProfitCalculation \<Rightarrow> exn + bytes" where
  "encodeLiquidationParams calc =
     abi_encode_params (address (collateralAsset calc)) (address (debtAsset calc))
       (user (target calc)) (debtToCover calc) False"

text \<open>
  The decoding step of \<open>executeOperation\<close> (FlashLoanLiquidator.sol, lines 59 to 66):
  \<open>abi.decode(params, (address, address, address, uint256, bool))\<close>. \<open>None\<close> is a
  revert: too few bytes, an address word with a non-zero high part, a bool word other
  than 0 and 1.
\<close>

definition abi_decode_params ::
  "bytes \<Rightarrow> (address \<times> address \<times> address \<times> 256 word \<times> bool) option" where
  "abi_decode_params bs =
     (if length bs < 160 then None
      else
        (let w0 = be_int (take 32 bs);
             w1 = be_int (take 32 (drop 32 bs));
             w2 = be_int (take 32 (drop 64 bs));
             w3 = be_int (take 32 (drop 96 bs));
             w4 = be_int (take 32 (drop 128 bs))
         in if w0 \<ge> 2 ^ 160 \<or> w1 \<ge> 2 ^ 160 \<or> w2 \<ge> 2 ^ 160 \<or> w4 > 1 then None
            else Some (word_of_int w0, word_of_int w1, word_of_int w2, word_of_int w3,
                       w4 = 1)))"

section \<open>Execution (src/core/liquidator.ts, executeLiquidation)\<close>

text \<open>The two addresses the liquidator holds: the executor contract and the wallet.\<close>

record Liquidator =
  flashLoanExecutor :: address
  wallet :: address

text \<open>
  \<open>ethers.utils.parseUnits(config.maxGasPriceGwei.toString(), 'gwei')\<close>: the decimal
  string of the number, scaled by \<open>10^9\<close>. It throws when \<open>toString\<close> switches to
  exponent notation and when more than nine fractional digits are left.
\<close>

definition parseUnitsGwei :: "number \<Rightarrow> exn + BigNumber" where
  "parseUnitsGwei x =
     (if x \<noteq> 0 \<and> (\<bar>x\<bar> < 1 / 10 ^ 6 \<or> \<bar>x\<bar> \<ge> 10 ^ 21)
      then Inl (Error ''invalid decimal value'')
      else if of_int \<lfloor>x * 10 ^ 9\<rfloor> \<noteq> x * 10 ^ 9
      then Inl (Error ''fractional component exceeds decimals'')
      else Inr \<lfloor>x * 10 ^ 9\<rfloor>)"

definition gasPriceTooHigh :: "World \<Rightarrow> ExecutionResult" where
  "gasPriceTooHigh w =
     \<lparr> success = False, transactionHash = None, error = Some ''Gas price too high'',
       gasUsed = None, gasCostWei = None, profitAmount = None, profitUsd = None,
       timestamp = dateNow w \<rparr>"

text \<open>\<open>error instanceof Error ? error.message : String(error)\<close>.\<close>

fun message :: "exn \<Rightarrow> string" where
  "message (Error msg) = msg"

definition caughtError :: "World \<Rightarrow> exn \<Rightarrow> ExecutionResult" where
  "caughtError w e =
     \<lparr> success = False, transactionHash = None, error = Some (message e),
       gasUsed = None, gasCostWei = None, profitAmount = None, profitUsd = None,
       timestamp = dateNow w \<rparr>"

text \<open>
  The arguments of the call \<open>this.pool.flashLoan(...)\<close> at line 190, from the
  flash-loan parameters set up at line 167.
\<close>

definition flashLoanCallOf ::
  "Liquidator \<Rightarrow> LiquidationProfitCalculation \<Rightarrow> bytes \<Rightarrow> BigNumber \<Rightarrow> FlashLoanCall" where
  "flashLoanCallOf liq calc encoded currentGasPrice =
     (let flashLoanParams =
            \<lparr> assets = [address (debtAsset calc)], amounts = [debtToCover calc],
              interestRateModes = [0], receiver = flashLoanExecutor liq,
              params = encoded, referralCode = 0 \<rparr>
      in \<lparr> loan = flashLoanParams, onBehalfOf = wallet liq,
           overrideGasLimit = 2000000, overrideGasPrice = currentGasPrice \<rparr>)"

text \<open>The two results built from a receipt (lines 219 and 228).\<close>

definition settled :: "World \<Rightarrow> Receipt \<Rightarrow> ExecutionResult" where
  "settled w receipt =
     \<lparr> success = True, transactionHash = Some (Receipt.transactionHash receipt),
       error = None, gasUsed = Some (Receipt.gasUsed receipt),
       gasCostWei = Some (Receipt.gasUsed receipt * effectiveGasPrice receipt),
       profitAmount = None, profitUsd = None, timestamp = dateNow w \<rparr>"

definition transactionFailed :: "World \<Rightarrow> Receipt \<Rightarrow> ExecutionResult" where
  "transactionFailed w receipt =
     \<lparr> success = False, transactionHash = Some (Receipt.transactionHash receipt),
       error = Some ''Transaction failed'', gasUsed = Some (Receipt.gasUsed receipt),
       gasCostWei = Some (Receipt.gasUsed receipt * effectiveGasPrice receipt),
       profitAmount = None, profitUsd = None, timestamp = dateNow w \<rparr>"

text \<open>
  The body of the \<open>try\<close> block. The second component is the list of the invocations
  of \<open>pool.flashLoan\<close> made so far; the body adds one when it reaches line 190.
\<close>

definition executeLiquidation_try ::
  "Config \<Rightarrow> World \<Rightarrow> Liquidator \<Rightarrow> LiquidationProfitCalculation \<Rightarrow> FlashLoanCall list
     \<Rightarrow> (exn + ExecutionResult) \<times> FlashLoanCall list" where
  "executeLiquidation_try cfg w liq calc sent =
     (case encodeLiquidationParams calc of
        Inl e \<Rightarrow> (Inl e, sent)
      | Inr encoded \<Rightarrow>
     (case getGasPrice w of
        Inl e \<Rightarrow> (Inl e, sent)
      | Inr currentGasPrice \<Rightarrow>
     (case parseUnitsGwei (maxGasPriceGwei cfg) of
        Inl e \<Rightarrow> (Inl e, sent)
      | Inr maxGasPrice \<Rightarrow>
          if currentGasPrice > maxGasPrice then (Inr (gasPriceTooHigh w), sent)
          else
     (let submitted = flashLoanCallOf liq calc encoded currentGasPrice
      in
     (case flashLoan w submitted of
        Inl e \<Rightarrow> (Inl e, sent @ [submitted])
      | Inr txHash \<Rightarrow>
     (case wait w txHash of
        Inl e \<Rightarrow> (Inl e, sent @ [submitted])
      | Inr receipt \<Rightarrow>
          if status receipt = 1 then (Inr (settled w receipt), sent @ [submitted])
          else (Inr (transactionFailed w receipt), sent @ [submitted])))))))"

text \<open>
  \<open>executeLiquidation\<close>: the \<open>catch\<close> block turns a throw of the body into a result.
  The type still allows a throw (\<open>Inl\<close>), so that its absence is a theorem.
\<close>

definition executeLiquidation ::
  "Config \<Rightarrow> World \<Rightarrow> Liquidator \<Rightarrow> LiquidationProfitCalculation \<Rightarrow> FlashLoanCall list
     \<Rightarrow> (exn + ExecutionResult) \<times> FlashLoanCall list" where
  "executeLiquidation cfg w liq calc sent =
     (case executeLiquidation_try cfg w liq calc sent of
        (Inl e, sent') \<Rightarrow> (Inr (caughtError w e), sent')
      | (Inr result, sent') \<Rightarrow> (Inr result, sent'))"

section \<open>Strategy manager (src/strategies/strategyManager.ts)\<close>

record StrategyManager =
  isRunning :: bool
  knownAddresses :: "address list"
  lastExecutionTime :: int
  executionHistory :: "ExecutionResult list"
  executionCooldown :: int

text \<open>
  The mutable state that the entry points touch: the manager's fields, the price
  monitor's cache and the invocations of \<open>pool.flashLoan\<close>.
\<close>

record Bot =
  manager :: StrategyManager
  priceCache :: PriceCache
  sent :: "FlashLoanCall list"

text \<open>\<open>this.executionHistory.push(result); this.lastExecutionTime = t\<close>.\<close>

definition recordExecution :: "int \<Rightarrow> ExecutionResult \<Rightarrow> StrategyManager \<Rightarrow> StrategyManager" where
  "recordExecution t result m =
     m\<lparr> lastExecutionTime := t, executionHistory := executionHistory m @ [result] \<rparr>"

text \<open>
  The three nested \<open>for\<close> loops of \<open>executeStrategy\<close> visit the pairs of every
  position in this order.
\<close>

definition pairsOf :: "LiquidationTarget list \<Rightarrow> (LiquidationTarget \<times> Asset \<times> Asset) list" where
  "pairsOf positions =
     concat (map (\<lambda>p. concat (map (\<lambda>d. map (\<lambda>c. (p, d, c)) (collateralAssets p))
                                  (debtAssets p)))
                 positions)"

text \<open>The search for the best opportunity; a throw of the calculation ends it.\<close>

fun findBest ::
  "Config \<Rightarrow> World \<Rightarrow> (LiquidationTarget \<times> Asset \<times> Asset) list
     \<Rightarrow> LiquidationProfitCalculation option \<Rightarrow> PriceCache
     \<Rightarrow> (exn + LiquidationProfitCalculation option) \<times> PriceCache" where
  "findBest cfg w [] best cache = (Inr best, cache)"
| "findBest cfg w ((p, d, c) # rest) best cache =
     (case calculateLiquidationProfit cfg w cache p d c of
        (Inl e, cache') \<Rightarrow> (Inl e, cache')
      | (Inr calc, cache') \<Rightarrow>
          findBest cfg w rest
            (if profitable calc
             then (case best of
                     None \<Rightarrow> Some calc
                   | Some b \<Rightarrow>
                       if executionPriority calc > executionPriority b then Some calc
                       else Some b)
             else best)
            cache')"

text \<open>
  \<open>executeStrategy\<close>. Every throw inside is caught and logged by its own \<open>catch\<close>
  block, which leaves the state as it was at the throw.
\<close>

definition executeStrategy :: "Config \<Rightarrow> World \<Rightarrow> Liquidator \<Rightarrow> Bot \<Rightarrow> Bot" where
  "executeStrategy cfg w liq st =
     (let now = dateNow w in
      if now - lastExecutionTime (manager st) < executionCooldown (manager st) then st
      else
        (case getLiquidatablePositions w of
           Inl e \<Rightarrow> st
         | Inr liquidatablePositions \<Rightarrow>
             if length liquidatablePositions = 0 then st
             else
               (case findBest cfg w (pairsOf liquidatablePositions) None (priceCache st) of
                  (Inl e, cache') \<Rightarrow> st\<lparr> priceCache := cache' \<rparr>
                | (Inr None, cache') \<Rightarrow> st\<lparr> priceCache := cache' \<rparr>
                | (Inr (Some bestOpportunity), cache') \<Rightarrow>
                    (case executeLiquidation cfg w liq bestOpportunity (sent st) of
                       (Inl e, sent') \<Rightarrow> st\<lparr> priceCache := cache', sent := sent' \<rparr>
                     | (Inr result, sent') \<Rightarrow>
                         st\<lparr> manager := recordExecution now result (manager st),
                              priceCache := cache', sent := sent' \<rparr>))))"









section \<open>Ranking (src/strategies/eModeStrategy.ts and oracleDelayStrategy.ts, scan)\<close>

text \<open>
  \<open>Array.prototype.sort(compare)\<close> is a stable sort (ECMAScript 2019): \<open>a\<close> is put
  before \<open>b\<close> when \<open>compare(a, b) < 0\<close>, after it when \<open>compare(a, b) > 0\<close>, and
  elements that compare as equal keep their order. It is modelled as the insertion sort
  that inserts from the right.
\<close>

fun array_insert :: "('a \<Rightarrow> 'a \<Rightarrow> number) \<Rightarrow> 'a \<Rightarrow> 'a list \<Rightarrow> 'a list" where
  "array_insert compare x [] = [x]"
| "array_insert compare x (y # ys) =
     (if compare x y \<le> 0 then x # y # ys else y # array_insert compare x ys)"

definition array_sort :: "('a \<Rightarrow> 'a \<Rightarrow> number) \<Rightarrow> 'a list \<Rightarrow> 'a list" where
  "array_sort compare xs = foldr (array_insert compare) xs []"

text \<open>
  \<open>opportunities.sort((a, b) => b.executionPriority - a.executionPriority)\<close>, the
  last step of both \<open>scan\<close> functions.
\<close>

definition rankOpportunities ::
  "LiquidationProfitCalculation list \<Rightarrow> LiquidationProfitCalculation list" where
  "rankOpportunities opportunities =
     array_sort (\<lambda>a b. executionPriority b - executionPriority a) opportunities"

text \<open>
  \<open>EModeStrategy.scan\<close> (eModeStrategy.ts): the strategy's two fields that the scan
  reads, the loops that collect the boosted profitable estimates in the order they are
  produced, and the final sort. Any throw inside makes the scan return the empty list.
\<close>

record EModeStrategy =
  isEnabled :: bool
  priorityMultiplier :: number

fun scan_collaterals ::
  "Config \<Rightarrow> World \<Rightarrow> number \<Rightarrow> LiquidationTarget \<Rightarrow> Asset \<Rightarrow> Asset list
     \<Rightarrow> LiquidationProfitCalculation list \<Rightarrow> PriceCache
     \<Rightarrow> (exn + LiquidationProfitCalculation list) \<times> PriceCache" where
  "scan_collaterals cfg w multiplier p d [] opportunities cache = (Inr opportunities, cache)"
| "scan_collaterals cfg w multiplier p d (c # cs) opportunities cache =
     (case getPriceData w cache (address c) of
        (Inl e, cache1) \<Rightarrow> (Inl e, cache1)
      | (Inr collateralPrice, cache1) \<Rightarrow>
          (case calculateLiquidationProfit cfg w cache1 p d c of
             (Inl e, cache2) \<Rightarrow> (Inl e, cache2)
           | (Inr calc, cache2) \<Rightarrow>
               if profitable calc
               then scan_collaterals cfg w multiplier p d cs
                      (opportunities
                       @ [calc\<lparr> executionPriority := executionPriority calc * multiplier \<rparr>])
                      cache2
               else scan_collaterals cfg w multiplier p d cs opportunities cache2))"

fun scan_debts ::
  "Config \<Rightarrow> World \<Rightarrow> number \<Rightarrow> LiquidationTarget \<Rightarrow> Asset list
     \<Rightarrow> LiquidationProfitCalculation list \<Rightarrow> PriceCache
     \<Rightarrow> (exn + LiquidationProfitCalculation list) \<times> PriceCache" where
  "scan_debts cfg w multiplier p [] opportunities cache = (Inr opportunities, cache)"
| "scan_debts cfg w multiplier p (d # ds) opportunities cache =
     (case getPriceData w cache (address d) of
        (Inl e, cache1) \<Rightarrow> (Inl e, cache1)
      | (Inr debtPrice, cache1) \<Rightarrow>
          (case scan_collaterals cfg w multiplier p d (collateralAssets p) opportunities cache1 of
             (Inl e, cache2) \<Rightarrow> (Inl e, cache2)
           | (Inr opportunities', cache2) \<Rightarrow>
               scan_debts cfg w multiplier p ds opportunities' cache2))"

fun scan_positions ::
  "Config \<Rightarrow> World \<Rightarrow> number \<Rightarrow> LiquidationTarget list
     \<Rightarrow> LiquidationProfitCalculation list \<Rightarrow> PriceCache
     \<Rightarrow> (exn + LiquidationProfitCalculation list) \<times> PriceCache" where
  "scan_positions cfg w multiplier [] opportunities cache = (Inr opportunities, cache)"
| "scan_positions cfg w multiplier (p # ps) opportunities cache =
     (case scan_debts cfg w multiplier p (debtAssets p) opportunities cache of
        (Inl e, cache1) \<Rightarrow> (Inl e, cache1)
      | (Inr opportunities', cache1) \<Rightarrow>
          scan_positions cfg w multiplier ps opportunities' cache1)"

definition eModeScan ::
  "Config \<Rightarrow> World \<Rightarrow> EModeStrategy \<Rightarrow> PriceCache
     \<Rightarrow> LiquidationProfitCalculation list \<times> PriceCache" where
  "eModeScan cfg w strategy cache =
     (if \<not> isEnabled strategy then ([], cache)
      else
        (case getLiquidatablePositions w of
           Inl e \<Rightarrow> ([], cache)
         | Inr liquidatablePositions \<Rightarrow>
             (let eModePositions = filter (\<lambda>p. eModeCategoryId p \<noteq> 0) liquidatablePositions
              in case scan_positions cfg w (priorityMultiplier strategy) eModePositions [] cache of
                   (Inl e, cache') \<Rightarrow> ([], cache')
                 | (Inr opportunities, cache') \<Rightarrow> (rankOpportunities opportunities, cache'))))"

section \<open>Example inputs\<close>

definition ex_config :: Config where
  "ex_config = \<lparr> minProfitUsd = 50, maxGasPriceGwei = 100, priceDifferenceThreshold = 2 / 100,
                  closeFactorHfThreshold = 95 * 10 ^ 16, aavePoolAddress = 3 \<rparr>"

definition ex_debt :: Asset where
  "ex_debt = \<lparr> symbol = ''DEBT'', address = 1, decimals = 6, amount = 1052631579,
                amountUsd = 0, lastUpdateTimestamp = 0, priceSource = None,
                Asset.liquidationBonus = None, liquidationThreshold = None \<rparr>"

definition ex_coll :: Asset where
  "ex_coll = \<lparr> symbol = ''COLL'', address = 2, decimals = 18, amount = 3 * 10 ^ 24,
                amountUsd = 0, lastUpdateTimestamp = 0, priceSource = None,
                Asset.liquidationBonus = Some (105 / 100),
                liquidationThreshold = Some (8 / 10) \<rparr>"

text \<open>Health factors 0.90 and 0.95 (18 decimals); gas prices of 20 and 200 gwei.\<close>

definition ex_hf_low :: BigNumber where
  "ex_hf_low = 90 * 10 ^ 16"

definition ex_hf_at :: BigNumber where
  "ex_hf_at = 95 * 10 ^ 16"

definition gwei20 :: BigNumber where
  "gwei20 = 20 * 10 ^ 9"

definition gwei200 :: BigNumber where
  "gwei200 = 200 * 10 ^ 9"

definition ex_target :: "BigNumber \<Rightarrow> int \<Rightarrow> LiquidationTarget" where
  "ex_target hf emode =
     \<lparr> user = 7, healthFactor = hf, totalCollateralBase = 0, totalDebtBase = 0,
       collateralAssets = [ex_coll], debtAssets = [ex_debt], eModeCategoryId = emode \<rparr>"

definition ex_receipt :: "int \<Rightarrow> Receipt" where
  "ex_receipt st =
     \<lparr> status = st, Receipt.transactionHash = ''0xabc'', Receipt.gasUsed = 500000,
       effectiveGasPrice = 20 * 10 ^ 9 \<rparr>"

text \<open>
  A world with the prices of the scenario (debt asset 2000, collateral 1, both with 8
  decimals), a gas price, the status of the receipt and the liquidatable positions.
\<close>

definition ex_world :: "BigNumber \<Rightarrow> int \<Rightarrow> LiquidationTarget list \<Rightarrow> World" where
  "ex_world gp st ps =
     \<lparr> getAssetPrice = (\<lambda>a. if a = 1 then Inr (2000 * 10 ^ 8)
                             else if a = 2 then Inr (1 * 10 ^ 8)
                             else if a = 3 then Inr (2000 * 10 ^ 8)
                             else Inl (Error ''call revert exception'')),
       dexQuote = (\<lambda>a. None),
       externalQuote = (\<lambda>a. None),
       getGasPrice = Inr gp,
       getLiquidatablePositions = Inr ps,
       flashLoan = (\<lambda>c. Inr ''0xabc''),
       wait = (\<lambda>h. Inr (ex_receipt st)),
       dateNow = 1700000000000 \<rparr>"

definition ex_estimate :: "BigNumber \<Rightarrow> int \<Rightarrow> Asset \<Rightarrow> LiquidationProfitCalculation" where
  "ex_estimate hf emode coll =
     \<lparr> target = ex_target hf emode, debtAsset = ex_debt, collateralAsset = coll,
       debtToCover = 1000000000, collateralToReceive = 2100000 * 10 ^ 18,
       liquidationBonus = 105 / 100, estimatedProfitUsd = 100000,
       estimatedGasCostUsd = 1840, netProfitUsd = 98160, profitable = True,
       executionPriority = 4908 / 1000 \<rparr>"

definition ex_liquidator :: Liquidator where
  "ex_liquidator = \<lparr> flashLoanExecutor = 8, wallet = 9 \<rparr>"

definition ex_manager :: "int \<Rightarrow> StrategyManager" where
  "ex_manager t0 =
     \<lparr> isRunning = True, knownAddresses = [7], lastExecutionTime = t0,
       executionHistory = [], executionCooldown = 60000 \<rparr>"

definition ex_bot :: "int \<Rightarrow> Bot" where
  "ex_bot t0 = \<lparr> manager = ex_manager t0, priceCache = Map.empty, sent = [] \<rparr>"

text \<open>
  A configuration with a negative discrepancy threshold, and a world in which the
  external source quotes the collateral at the oracle's price.
\<close>

definition ex_config_negative :: Config where
  "ex_config_negative = ex_config\<lparr> priceDifferenceThreshold := - 1 \<rparr>"

definition ex_world_agreeing :: World where
  "ex_world_agreeing = (ex_world gwei20 1 [])\<lparr> externalQuote := (\<lambda>a. Some (1 * 10 ^ 8)) \<rparr>"

text \<open>
  A world whose external source disagrees with the oracle on both assets, a world whose
  pool rejects the flash loan, and a position with two collateral assets.
\<close>

definition ex_world_disagreeing :: "int \<Rightarrow> LiquidationTarget list \<Rightarrow> World" where
  "ex_world_disagreeing st ps =
     (ex_world gwei20 st ps)
       \<lparr> externalQuote := (\<lambda>a. if a = 2 then Some (95 * 10 ^ 6) else Some (1900 * 10 ^ 8)) \<rparr>"

definition ex_world_rejecting :: World where
  "ex_world_rejecting =
     (ex_world gwei20 1 [])\<lparr> flashLoan := (\<lambda>c. Inl (Error ''insufficient funds'')) \<rparr>"


text \<open>The estimate of the example pair at a gas price of 200 gwei.\<close>

definition ex_estimate_200 :: LiquidationProfitCalculation where
  "ex_estimate_200 =
     (ex_estimate ex_hf_low 0 ex_coll)
       \<lparr> estimatedGasCostUsd := 2200, netProfitUsd := 97800, executionPriority := 489 / 100 \<rparr>"

text \<open>Three estimates that differ in their user and, the second one, in its score.\<close>

definition ex_scored :: "nat \<Rightarrow> number \<Rightarrow> LiquidationProfitCalculation" where
  "ex_scored n score =
     (ex_estimate ex_hf_low 1 ex_coll)
       \<lparr> target := (ex_target ex_hf_low 1)\<lparr> user := of_nat n \<rparr>, executionPriority := score \<rparr>"

section \<open>Facts about the helpers\<close>

lemma bn_quot_nonneg: "0 \<le> a \<Longrightarrow> 0 \<le> b \<Longrightarrow> bn_quot a b = a div b"
  by (cases "a = 0"; cases "b = 0") (simp_all add: bn_quot_def)

lemma bn_quot_mult_cancel: "c \<noteq> 0 \<Longrightarrow> bn_quot (a * c) c = a"
proof -
  assume c: "c \<noteq> 0"
  have "bn_quot (a * c) c = sgn a * (sgn c * sgn c) * \<bar>a\<bar>"
    using c by (simp add: bn_quot_def abs_mult sgn_mult)
  also have "sgn c * sgn c = 1" using c by (simp add: sgn_mult_self_eq)
  finally show ?thesis by (simp add: mult_sgn_abs)
qed

lemma bn_quot_half: "bn_quot (a * 5000) 10000 = bn_quot a 2"
proof -
  have "\<bar>a\<bar> * 5000 div 10000 = \<bar>a\<bar> div 2" by simp
  then show ?thesis by (cases "a = 0") (simp_all add: bn_quot_def abs_mult sgn_mult)
qed

text \<open>Two truncating divisions in a row are one division by the product.\<close>

lemma bn_quot_quot: "bn_quot (bn_quot a b) c = bn_quot a (b * c)"
proof (cases "b = 0 \<or> c = 0")
  case True
  then show ?thesis by (auto simp: bn_quot_def)
next
  case False
  then have b: "b \<noteq> 0" and c: "c \<noteq> 0" by auto
  have nn: "0 \<le> \<bar>a\<bar> div \<bar>b\<bar>"
    using b by (simp add: pos_imp_zdiv_nonneg_iff)
  have abs_q: "\<bar>bn_quot a b\<bar> = \<bar>a\<bar> div \<bar>b\<bar>"
    by (cases "a = 0") (use b nn in \<open>simp_all add: bn_quot_def abs_mult\<close>)
  show ?thesis
  proof (cases "\<bar>a\<bar> div \<bar>b\<bar> = 0")
    case True
    then have q0: "bn_quot a b = 0" by (simp add: bn_quot_def)
    have r0: "\<bar>a\<bar> div (\<bar>b\<bar> * \<bar>c\<bar>) = 0"
      using True by (simp add: zdiv_zmult2_eq)
    have "bn_quot 0 c = 0" by (simp add: bn_quot_def)
    moreover have "bn_quot a (b * c) = 0" using r0 by (simp add: bn_quot_def abs_mult)
    ultimately show ?thesis using q0 by simp
  next
    case nz: False
    then have a: "a \<noteq> 0" by auto
    have "0 < \<bar>a\<bar> div \<bar>b\<bar>" using nz nn by linarith
    then have "sgn (\<bar>a\<bar> div \<bar>b\<bar>) = 1" by simp
    then have sg: "sgn (bn_quot a b) = sgn a * sgn b"
      by (simp add: bn_quot_def sgn_mult)
    show ?thesis
      unfolding bn_quot_def[of "bn_quot a b" c] abs_q sg
      by (simp add: bn_quot_def abs_mult sgn_mult zdiv_zmult2_eq)
  qed
qed

section \<open>The profit calculation returns what its steps compute\<close>

lemma getPriceData_Inr:
  "getPriceData w c a = (Inr pd, c') \<Longrightarrow> getAssetPrice w a = Inr (aaveOraclePrice pd)"
  by (auto simp: getPriceData_def Let_def split: sum.splits)

lemma calc_Inr:
  assumes "fst (calculateLiquidationProfit cfg w cache tgt debt coll) = Inr r"
  shows "debtToCover r = debtToCoverOf cfg tgt debt"
    and "liquidationBonus r = liquidationBonusOf coll"
    and "\<exists>dp cp. getAssetPrice w (address debt) = Inr dp \<and> getAssetPrice w (address coll) = Inr cp
           \<and> collateralToReceiveOf dp (debtToCoverOf cfg tgt debt) (decimals coll)
                (liquidationBonusOf coll) cp (decimals debt) = Inr (collateralToReceive r)"
  using assms
  by (auto simp: calculateLiquidationProfit_def Let_def dest!: getPriceData_Inr
           split: sum.splits prod.splits)

lemma collateralToReceiveOf_Inr:
  assumes "collateralToReceiveOf dp dtc cd b cp dd = Inr x"
  shows "x = bn_quot (bn_quot (dp * dtc * 10 ^ cd * bonusBps b) (cp * 10 ^ dd)) 10000"
    and "cp \<noteq> 0"
  using assms
  by (auto simp: collateralToReceiveOf_def bn_from_number_def bn_div_def bn_quot_quot mult.assoc
           split: sum.splits if_splits)

lemma ex_calc:
  "fst (calculateLiquidationProfit ex_config (ex_world gwei20 1 []) Map.empty
          (ex_target ex_hf_low 0) ex_debt ex_coll)
   = Inr (ex_estimate ex_hf_low 0 ex_coll)"
  by code_simp

lemma ex_calc_zero_bonus:
  "fst (calculateLiquidationProfit ex_config (ex_world gwei20 1 []) Map.empty
          (ex_target ex_hf_low 0) ex_debt (ex_coll\<lparr>Asset.liquidationBonus := Some 0\<rparr>))
   = Inr (ex_estimate ex_hf_low 0 (ex_coll\<lparr>Asset.liquidationBonus := Some 0\<rparr>))"
  by code_simp

lemma ex_prices:
  "getAssetPrice (ex_world gp st ps) (address ex_debt) = Inr (2000 * 10 ^ 8)"
  "getAssetPrice (ex_world gp st ps) (address ex_coll) = Inr (1 * 10 ^ 8)"
  "getAssetPrice (ex_world gp st ps) (address (ex_coll\<lparr>Asset.liquidationBonus := b\<rparr>)) = Inr (1 * 10 ^ 8)"
  by (simp_all add: ex_world_def ex_debt_def ex_coll_def)

section \<open>Claims about the profit calculation\<close>

text \<open>
  Claim C1. The close factor depends on the health factor alone: a position whose health
  factor is strictly below \<open>closeFactorHfThreshold\<close> may have all of the debt asset's
  amount covered, any other position half of it (the \<open>BigNumber\<close> quotient by 2).
  Every estimate that is returned covers 95% of that maximum.
\<close>

theorem close_factor_selection:
  "maxDebtToCover cfg tgt debt =
     (if healthFactor tgt < closeFactorHfThreshold cfg then amount debt
      else bn_quot (amount debt) 2)
   \<and> (0 \<le> amount debt \<longrightarrow> bn_quot (amount debt) 2 = amount debt div 2)
   \<and> (\<forall>r. fst (calculateLiquidationProfit cfg w cache tgt debt coll) = Inr r \<longrightarrow>
          debtToCover r = bn_quot (maxDebtToCover cfg tgt debt * 95) 100)"
proof (intro conjI allI impI)
  assume "0 \<le> amount debt"
  then show "bn_quot (amount debt) 2 = amount debt div 2"
    by (simp add: bn_quot_nonneg)
next
  show "maxDebtToCover cfg tgt debt =
     (if healthFactor tgt < closeFactorHfThreshold cfg then amount debt
      else bn_quot (amount debt) 2)"
    by (simp add: maxDebtToCover_def closeFactorMultiplier_def bn_quot_mult_cancel bn_quot_half)
next
  fix r
  assume "fst (calculateLiquidationProfit cfg w cache tgt debt coll) = Inr r"
  then show "debtToCover r = bn_quot (maxDebtToCover cfg tgt debt * 95) 100"
    by (simp add: calc_Inr(1) debtToCoverOf_def)
qed

theorem close_factor_selection_witness:
  "fst (calculateLiquidationProfit ex_config (ex_world gwei20 1 []) Map.empty
          (ex_target ex_hf_low 0) ex_debt ex_coll) = Inr (ex_estimate ex_hf_low 0 ex_coll)
   \<and> healthFactor (ex_target ex_hf_low 0) < closeFactorHfThreshold ex_config
   \<and> maxDebtToCover ex_config (ex_target ex_hf_low 0) ex_debt = 1052631579
   \<and> debtToCover (ex_estimate ex_hf_low 0 ex_coll) = bn_quot (1052631579 * 95) 100
   \<and> \<not> healthFactor (ex_target ex_hf_at 0) < closeFactorHfThreshold ex_config
   \<and> maxDebtToCover ex_config (ex_target ex_hf_at 0) ex_debt = 526315789"
proof -
  have low: "healthFactor (ex_target ex_hf_low 0) < closeFactorHfThreshold ex_config"
    by (simp add: ex_target_def ex_config_def ex_hf_low_def)
  have high: "\<not> healthFactor (ex_target ex_hf_at 0) < closeFactorHfThreshold ex_config"
    by (simp add: ex_target_def ex_config_def ex_hf_at_def)
  have amt: "amount ex_debt = 1052631579" by (simp add: ex_debt_def)
  have half: "bn_quot 1052631579 2 = 526315789" by (simp add: bn_quot_def)
  note t1 = close_factor_selection [of ex_config "ex_target ex_hf_low 0" ex_debt
      "ex_world gwei20 1 []" Map.empty ex_coll]
  note t2 = close_factor_selection [of ex_config "ex_target ex_hf_at 0" ex_debt
      "ex_world gwei20 1 []" Map.empty ex_coll]
  have m1: "maxDebtToCover ex_config (ex_target ex_hf_low 0) ex_debt = 1052631579"
    using t1 low amt by simp
  have m2: "maxDebtToCover ex_config (ex_target ex_hf_at 0) ex_debt = 526315789"
    using t2 high amt half by simp
  have d: "debtToCover (ex_estimate ex_hf_low 0 ex_coll) = bn_quot (1052631579 * 95) 100"
    using t1 ex_calc m1 by simp
  show ?thesis using ex_calc low high m1 m2 d by blast
qed

text \<open>
  Claim C2. For a debt amount that is not negative (the monitor lists a debt asset only
  when its total debt is positive), \<open>debtToCover\<close> is 95% of the close-factor cap, in
  integer division, and so never exceeds the cap, which is all or half of the amount.
\<close>

theorem debtToCover_within_cap:
  assumes "fst (calculateLiquidationProfit cfg w cache tgt debt coll) = Inr r"
    and "0 \<le> amount debt"
  shows "maxDebtToCover cfg tgt debt =
           (if healthFactor tgt < closeFactorHfThreshold cfg then amount debt
            else amount debt div 2)
         \<and> debtToCover r = maxDebtToCover cfg tgt debt * 95 div 100
         \<and> debtToCover r \<le> maxDebtToCover cfg tgt debt"
proof -
  have cap: "maxDebtToCover cfg tgt debt =
           (if healthFactor tgt < closeFactorHfThreshold cfg then amount debt
            else amount debt div 2)"
    using assms(2)
    by (simp add: maxDebtToCover_def closeFactorMultiplier_def bn_quot_mult_cancel bn_quot_half
          bn_quot_nonneg)
  then have cap_nonneg: "0 \<le> maxDebtToCover cfg tgt debt"
    using assms(2) by (simp split: if_splits)
  have dtc: "debtToCover r = maxDebtToCover cfg tgt debt * 95 div 100"
    using calc_Inr(1) [OF assms(1)] cap_nonneg by (simp add: debtToCoverOf_def bn_quot_nonneg)
  have "maxDebtToCover cfg tgt debt * 95 div 100 \<le> maxDebtToCover cfg tgt debt"
    using cap_nonneg by linarith
  with cap dtc show ?thesis by simp
qed

theorem debtToCover_within_cap_witness:
  "fst (calculateLiquidationProfit ex_config (ex_world gwei20 1 []) Map.empty
          (ex_target ex_hf_low 0) ex_debt ex_coll) = Inr (ex_estimate ex_hf_low 0 ex_coll)
   \<and> 0 \<le> amount ex_debt
   \<and> maxDebtToCover ex_config (ex_target ex_hf_low 0) ex_debt = 1052631579
   \<and> debtToCover (ex_estimate ex_hf_low 0 ex_coll) = 1000000000
   \<and> debtToCover (ex_estimate ex_hf_low 0 ex_coll)
        \<le> maxDebtToCover ex_config (ex_target ex_hf_low 0) ex_debt"
proof -
  have amt: "0 \<le> amount ex_debt" and a: "amount ex_debt = 1052631579"
    by (simp_all add: ex_debt_def)
  have low: "healthFactor (ex_target ex_hf_low 0) < closeFactorHfThreshold ex_config"
    by (simp add: ex_target_def ex_config_def ex_hf_low_def ex_hf_at_def)
  note t = debtToCover_within_cap [OF ex_calc amt]
  have m: "maxDebtToCover ex_config (ex_target ex_hf_low 0) ex_debt = 1052631579"
    using t low a by simp
  have d: "debtToCover (ex_estimate ex_hf_low 0 ex_coll) = 1000000000"
    using t m by simp
  show ?thesis using ex_calc amt m d t by blast
qed



text \<open>
  Claim C10. The bonus of an estimate is never 0: when the collateral asset's bonus is 0
  (or absent) the estimate carries the fallback 1.05, and the collateral receivable is
  computed with 10500 basis points.
\<close>

theorem zero_bonus_uses_fallback:
  assumes "fst (calculateLiquidationProfit cfg w cache tgt debt coll) = Inr r"
  shows "liquidationBonus r \<noteq> 0
         \<and> (Asset.liquidationBonus coll = Some 0 \<or> Asset.liquidationBonus coll = None
              \<longrightarrow> liquidationBonus r = 105 / 100
                  \<and> bonusBps (liquidationBonus r) = 10500
                  \<and> (\<forall>dp cp. getAssetPrice w (address debt) = Inr dp
                                \<and> getAssetPrice w (address coll) = Inr cp
                        \<longrightarrow> collateralToReceive r =
                              bn_quot (bn_quot (dp * debtToCover r * 10 ^ decimals coll * 10500)
                                         (cp * 10 ^ decimals debt)) 10000))"
proof (intro conjI impI allI)
  note c = calc_Inr [OF assms]
  show "liquidationBonus r \<noteq> 0"
    by (simp add: c(2) liquidationBonusOf_def split: option.splits)
  assume z: "Asset.liquidationBonus coll = Some 0 \<or> Asset.liquidationBonus coll = None"
  then show lb: "liquidationBonus r = 105 / 100"
    by (auto simp: c(2) liquidationBonusOf_def)
  show bps: "bonusBps (liquidationBonus r) = 10500"
    unfolding bonusBps_def lb by simp
  fix dp cp
  assume "getAssetPrice w (address debt) = Inr dp \<and> getAssetPrice w (address coll) = Inr cp"
  with c(3) have "collateralToReceiveOf dp (debtToCover r) (decimals coll) (liquidationBonus r)
       cp (decimals debt) = Inr (collateralToReceive r)"
    by (auto simp: c(1) c(2))
  from collateralToReceiveOf_Inr(1) [OF this]
  show "collateralToReceive r =
          bn_quot (bn_quot (dp * debtToCover r * 10 ^ decimals coll * 10500)
                     (cp * 10 ^ decimals debt)) 10000"
    by (simp only: bps)
qed

theorem zero_bonus_uses_fallback_witness:
  "fst (calculateLiquidationProfit ex_config (ex_world gwei20 1 []) Map.empty
          (ex_target ex_hf_low 0) ex_debt (ex_coll\<lparr>Asset.liquidationBonus := Some 0\<rparr>))
     = Inr (ex_estimate ex_hf_low 0 (ex_coll\<lparr>Asset.liquidationBonus := Some 0\<rparr>))
   \<and> Asset.liquidationBonus (ex_coll\<lparr>Asset.liquidationBonus := Some 0\<rparr>) = Some 0
   \<and> liquidationBonus (ex_estimate ex_hf_low 0 (ex_coll\<lparr>Asset.liquidationBonus := Some 0\<rparr>))
       = 105 / 100
   \<and> collateralToReceive
         (ex_estimate ex_hf_low 0 (ex_coll\<lparr>Asset.liquidationBonus := Some 0\<rparr>))
       = bn_quot (bn_quot (2000 * 10 ^ 8 * 1000000000 * 10 ^ 18 * 10500) (1 * 10 ^ 8 * 10 ^ 6)) 10000"
proof -
  let ?c = "ex_coll\<lparr>Asset.liquidationBonus := Some 0\<rparr>"
  let ?r = "ex_estimate ex_hf_low 0 ?c"
  have z: "Asset.liquidationBonus ?c = Some 0" by simp
  have dec: "decimals ?c = 18" "decimals ex_debt = 6" "debtToCover ?r = 1000000000"
    by (simp_all add: ex_coll_def ex_debt_def ex_estimate_def)
  note t = zero_bonus_uses_fallback [OF ex_calc_zero_bonus]
  have lb: "liquidationBonus ?r = 105 / 100" using t z by blast
  have "collateralToReceive ?r =
          bn_quot (bn_quot (2000 * 10 ^ 8 * debtToCover ?r * 10 ^ decimals ?c * 10500)
                     (1 * 10 ^ 8 * 10 ^ decimals ex_debt)) 10000"
    using t z ex_prices(1,3) by blast
  then have f: "collateralToReceive ?r
       = bn_quot (bn_quot (2000 * 10 ^ 8 * 1000000000 * 10 ^ 18 * 10500) (1 * 10 ^ 8 * 10 ^ 6)) 10000"
    by (simp only: dec)
  show ?thesis using ex_calc_zero_bonus z lb f by blast
qed

section \<open>Claims about the price monitor, the execution and the strategies\<close>

text \<open>
  Claim C9, as amended. \<open>hasPriceDiscrepancy\<close> answers false, and does not throw, when
  the asset has no cached quote, when the cached quote carries no discrepancy figure
  and when the figure is 0; for any other figure it answers whether the figure exceeds
  the threshold. With a threshold that is not negative this is the claim as written.
\<close>

theorem hasPriceDiscrepancy_cases:
  "(cache a = None \<longrightarrow> \<not> hasPriceDiscrepancy cfg cache a)
   \<and> (\<forall>q. cache a = Some q \<and> discrepancyPercentage q = None
          \<longrightarrow> \<not> hasPriceDiscrepancy cfg cache a)
   \<and> (\<forall>q. cache a = Some q \<and> discrepancyPercentage q = Some 0
          \<longrightarrow> \<not> hasPriceDiscrepancy cfg cache a)
   \<and> (\<forall>q d. cache a = Some q \<and> discrepancyPercentage q = Some d \<and> d \<noteq> 0
          \<longrightarrow> hasPriceDiscrepancy cfg cache a = (d > priceDifferenceThreshold cfg))
   \<and> (\<forall>q d. cache a = Some q \<and> discrepancyPercentage q = Some d
                \<and> 0 \<le> priceDifferenceThreshold cfg
          \<longrightarrow> hasPriceDiscrepancy cfg cache a = (d > priceDifferenceThreshold cfg))"
  by (auto simp: hasPriceDiscrepancy_def)

lemma ex_cache_agreeing:
  "snd (getPriceData ex_world_agreeing Map.empty 2) 2
     = Some \<lparr> assetAddress = 2, aaveOraclePrice = 1 * 10 ^ 8, dexPrice = None,
               externalApiPrice = Some (1 * 10 ^ 8), timestamp = 1700000000000,
               discrepancyPercentage = Some 0 \<rparr>"
  by code_simp

text \<open>
  The claim as written fails where the figure is 0 and the threshold is negative: the
  oracle and the external source agree on the collateral's price, the cached figure 0
  exceeds the threshold \<open>-1\<close>, and the answer is false.
\<close>

theorem hasPriceDiscrepancy_counterexample:
  "map_option discrepancyPercentage (snd (getPriceData ex_world_agreeing Map.empty 2) 2)
     = Some (Some 0)
   \<and> 0 > priceDifferenceThreshold ex_config_negative
   \<and> \<not> hasPriceDiscrepancy ex_config_negative
          (snd (getPriceData ex_world_agreeing Map.empty 2)) 2"
  by (simp add: ex_cache_agreeing hasPriceDiscrepancy_def ex_config_negative_def)

lemma ex_cache_disagreeing:
  "snd (getPriceData (ex_world_disagreeing 1 []) Map.empty 2) 2
     = Some \<lparr> assetAddress = 2, aaveOraclePrice = 1 * 10 ^ 8, dexPrice = None,
               externalApiPrice = Some (95 * 10 ^ 6), timestamp = 1700000000000,
               discrepancyPercentage = Some (100 / 19) \<rparr>"
  by code_simp

theorem hasPriceDiscrepancy_cases_witness:
  "snd (getPriceData ex_world_agreeing Map.empty 2) 1 = None
   \<and> \<not> hasPriceDiscrepancy ex_config (snd (getPriceData ex_world_agreeing Map.empty 2)) 1
   \<and> map_option discrepancyPercentage (snd (getPriceData ex_world_agreeing Map.empty 2) 2)
        = Some (Some 0)
   \<and> \<not> hasPriceDiscrepancy ex_config (snd (getPriceData ex_world_agreeing Map.empty 2)) 2
   \<and> map_option discrepancyPercentage
         (snd (getPriceData (ex_world_disagreeing 1 []) Map.empty 2) 2) = Some (Some (100 / 19))
   \<and> (100 / 19 :: real) > priceDifferenceThreshold ex_config
   \<and> hasPriceDiscrepancy ex_config
         (snd (getPriceData (ex_world_disagreeing 1 []) Map.empty 2)) 2"
proof -
  let ?d = "snd (getPriceData (ex_world_disagreeing 1 []) Map.empty 2)"
  have thr: "(100 / 19 :: real) > priceDifferenceThreshold ex_config"
    by (simp add: ex_config_def)
  have sd: "map_option discrepancyPercentage (?d 2) = Some (Some (100 / 19))"
    by (simp add: ex_cache_disagreeing)
  let ?q = "\<lparr> assetAddress = 2, aaveOraclePrice = 1 * 10 ^ 8, dexPrice = None,
               externalApiPrice = Some (95 * 10 ^ 6), timestamp = 1700000000000,
               discrepancyPercentage = Some (100 / 19 :: real) \<rparr>"
  have q: "?d 2 = Some ?q" by (rule ex_cache_disagreeing)
  have dq: "discrepancyPercentage ?q = Some (100 / 19)" by simp
  have nz: "(100 / 19 :: real) \<noteq> 0" by simp
  have "hasPriceDiscrepancy ex_config ?d 2 = (100 / 19 > priceDifferenceThreshold ex_config)"
    using hasPriceDiscrepancy_cases [of ?d 2 ex_config] q dq nz by blast
  then have pos: "hasPriceDiscrepancy ex_config ?d 2"
    using thr by blast
  let ?c = "snd (getPriceData ex_world_agreeing Map.empty 2)"
  have n: "?c 1 = None" by code_simp
  note t = hasPriceDiscrepancy_cases [of ?c 1 ex_config]
  note t2 = hasPriceDiscrepancy_cases [of ?c 2 ex_config]
  have a: "\<not> hasPriceDiscrepancy ex_config ?c 1" using t n by blast
  have s: "map_option discrepancyPercentage (?c 2) = Some (Some 0)"
    by (simp add: ex_cache_agreeing)
  have b: "\<not> hasPriceDiscrepancy ex_config ?c 2"
    using t2 ex_cache_agreeing by simp
  show ?thesis using n a s b sd thr pos by blast
qed


lemma executeLiquidation_snd:
  "snd (executeLiquidation cfg w liq calc calls) = snd (executeLiquidation_try cfg w liq calc calls)"
  by (simp add: executeLiquidation_def split: prod.splits sum.splits)

lemma executeLiquidation_Inr:
  "\<exists>r. fst (executeLiquidation cfg w liq calc calls) = Inr r"
  by (simp add: executeLiquidation_def split: prod.splits sum.splits)

lemma executeLiquidation_gas:
  assumes "encodeLiquidationParams calc = Inr encoded"
    and "getGasPrice w = Inr g" and "parseUnitsGwei (maxGasPriceGwei cfg) = Inr m" and "g > m"
  shows "executeLiquidation cfg w liq calc calls = (Inr (gasPriceTooHigh w), calls)"
  using assms by (simp add: executeLiquidation_def executeLiquidation_try_def)

text \<open>
  Claim C6, as amended. \<open>executeLiquidation\<close> always returns a result: a throw of its
  body (during encoding, the gas price read, the submission or the wait) becomes a
  result with \<open>success = false\<close> and the message of the error, and a receipt whose
  status is not 1 becomes a result with \<open>success = false\<close> and the error
  \<open>Transaction failed\<close>.
\<close>

theorem executeLiquidation_returns_result:
  "(\<exists>r. fst (executeLiquidation cfg w liq calc calls) = Inr r)
   \<and> (\<forall>e calls'. executeLiquidation_try cfg w liq calc calls = (Inl e, calls')
         \<longrightarrow> executeLiquidation cfg w liq calc calls = (Inr (caughtError w e), calls')
             \<and> \<not> success (caughtError w e) \<and> error (caughtError w e) = Some (message e))
   \<and> (\<forall>encoded g m e. encodeLiquidationParams calc = Inr encoded \<and> getGasPrice w = Inr g
           \<and> parseUnitsGwei (maxGasPriceGwei cfg) = Inr m \<and> g \<le> m
           \<and> flashLoan w (flashLoanCallOf liq calc encoded g) = Inl e
         \<longrightarrow> fst (executeLiquidation cfg w liq calc calls) = Inr (caughtError w e))
   \<and> (\<forall>encoded g m h receipt. encodeLiquidationParams calc = Inr encoded
           \<and> getGasPrice w = Inr g \<and> parseUnitsGwei (maxGasPriceGwei cfg) = Inr m \<and> g \<le> m
           \<and> flashLoan w (flashLoanCallOf liq calc encoded g) = Inr h
           \<and> wait w h = Inr receipt \<and> status receipt \<noteq> 1
         \<longrightarrow> fst (executeLiquidation cfg w liq calc calls) = Inr (transactionFailed w receipt)
             \<and> \<not> success (transactionFailed w receipt)
             \<and> error (transactionFailed w receipt) = Some ''Transaction failed'')"
proof (intro conjI allI impI)
  show "\<exists>r. fst (executeLiquidation cfg w liq calc calls) = Inr r"
    by (rule executeLiquidation_Inr)
next
  fix e calls'
  assume "executeLiquidation_try cfg w liq calc calls = (Inl e, calls')"
  then show "executeLiquidation cfg w liq calc calls = (Inr (caughtError w e), calls')"
    by (simp add: executeLiquidation_def)
next
  fix e :: exn
  show "\<not> success (caughtError w e)" by (simp add: caughtError_def)
  show "error (caughtError w e) = Some (message e)" by (simp add: caughtError_def)
next
  fix encoded g m e
  assume "encodeLiquidationParams calc = Inr encoded \<and> getGasPrice w = Inr g
           \<and> parseUnitsGwei (maxGasPriceGwei cfg) = Inr m \<and> g \<le> m
           \<and> flashLoan w (flashLoanCallOf liq calc encoded g) = Inl e"
  then show "fst (executeLiquidation cfg w liq calc calls) = Inr (caughtError w e)"
    by (simp add: executeLiquidation_def executeLiquidation_try_def Let_def)
next
  fix encoded g m h receipt
  assume "encodeLiquidationParams calc = Inr encoded
           \<and> getGasPrice w = Inr g \<and> parseUnitsGwei (maxGasPriceGwei cfg) = Inr m \<and> g \<le> m
           \<and> flashLoan w (flashLoanCallOf liq calc encoded g) = Inr h
           \<and> wait w h = Inr receipt \<and> status receipt \<noteq> 1"
  then show "fst (executeLiquidation cfg w liq calc calls) = Inr (transactionFailed w receipt)"
    by (simp add: executeLiquidation_def executeLiquidation_try_def Let_def)
next
  fix receipt
  show "\<not> success (transactionFailed w receipt)" by (simp add: transactionFailed_def)
  show "error (transactionFailed w receipt) = Some ''Transaction failed''"
    by (simp add: transactionFailed_def)
qed

lemma ex_encoded: "\<exists>bs. encodeLiquidationParams (ex_estimate ex_hf_low 0 ex_coll) = Inr bs"
  by (simp add: encodeLiquidationParams_def abi_encode_params_def abi_uint256_def ex_estimate_def)

lemma ex_max_gas: "parseUnitsGwei (maxGasPriceGwei ex_config) = Inr (100 * 10 ^ 9)"
  by (simp add: parseUnitsGwei_def ex_config_def)

lemma ex_world_fields:
  "getGasPrice (ex_world gp st ps) = Inr gp"
  "getLiquidatablePositions (ex_world gp st ps) = Inr ps"
  "flashLoan (ex_world gp st ps) c = Inr ''0xabc''"
  "wait (ex_world gp st ps) h = Inr (ex_receipt st)"
  "dateNow (ex_world gp st ps) = 1700000000000"
  by (simp_all add: ex_world_def)

lemma ex_failed:
  "fst (executeLiquidation ex_config (ex_world gwei20 0 []) ex_liquidator
          (ex_estimate ex_hf_low 0 ex_coll) [])
   = Inr (transactionFailed (ex_world gwei20 0 []) (ex_receipt 0))"
proof -
  obtain bs where "encodeLiquidationParams (ex_estimate ex_hf_low 0 ex_coll) = Inr bs"
    using ex_encoded by blast
  moreover have "\<not> gwei20 > 100 * 10 ^ 9" by (simp add: gwei20_def)
  moreover have "status (ex_receipt 0) \<noteq> 1" by (simp add: ex_receipt_def)
  ultimately show ?thesis
    by (simp add: executeLiquidation_def executeLiquidation_try_def Let_def ex_max_gas
          ex_world_fields)
qed

text \<open>
  The claim as written names the error \<open>SettlementFailed\<close>: for a receipt of status 0
  the result carries \<open>Transaction failed\<close>.
\<close>

theorem executeLiquidation_counterexample:
  "wait (ex_world gwei20 0 []) ''0xabc'' = Inr (ex_receipt 0)
   \<and> status (ex_receipt 0) \<noteq> 1
   \<and> fst (executeLiquidation ex_config (ex_world gwei20 0 []) ex_liquidator
            (ex_estimate ex_hf_low 0 ex_coll) [])
       = Inr (transactionFailed (ex_world gwei20 0 []) (ex_receipt 0))
   \<and> error (transactionFailed (ex_world gwei20 0 []) (ex_receipt 0)) = Some ''Transaction failed''
   \<and> error (transactionFailed (ex_world gwei20 0 []) (ex_receipt 0)) \<noteq> Some ''SettlementFailed''"
  by (simp add: ex_failed ex_world_fields) (simp add: transactionFailed_def ex_receipt_def)

lemma ex_rejected:
  "fst (executeLiquidation ex_config ex_world_rejecting ex_liquidator
          (ex_estimate ex_hf_low 0 ex_coll) [])
   = Inr (caughtError ex_world_rejecting (Error ''insufficient funds''))"
proof -
  obtain bs where "encodeLiquidationParams (ex_estimate ex_hf_low 0 ex_coll) = Inr bs"
    using ex_encoded by blast
  moreover have "\<not> gwei20 > 100 * 10 ^ 9" by (simp add: gwei20_def)
  ultimately show ?thesis
    by (simp add: executeLiquidation_def executeLiquidation_try_def Let_def ex_max_gas
          ex_world_fields ex_world_rejecting_def)
qed

theorem executeLiquidation_returns_result_witness:
  "status (ex_receipt 0) \<noteq> 1
   \<and> fst (executeLiquidation ex_config (ex_world gwei20 0 []) ex_liquidator
            (ex_estimate ex_hf_low 0 ex_coll) [])
       = Inr (transactionFailed (ex_world gwei20 0 []) (ex_receipt 0))
   \<and> \<not> success (transactionFailed (ex_world gwei20 0 []) (ex_receipt 0))
   \<and> error (transactionFailed (ex_world gwei20 0 []) (ex_receipt 0)) = Some ''Transaction failed''
   \<and> fst (executeLiquidation ex_config ex_world_rejecting ex_liquidator
            (ex_estimate ex_hf_low 0 ex_coll) [])
       = Inr (caughtError ex_world_rejecting (Error ''insufficient funds''))
   \<and> \<not> success (caughtError ex_world_rejecting (Error ''insufficient funds''))
   \<and> error (caughtError ex_world_rejecting (Error ''insufficient funds''))
       = Some ''insufficient funds''"
proof -
  let ?calc = "ex_estimate ex_hf_low 0 ex_coll"
  obtain bs where enc: "encodeLiquidationParams ?calc = Inr bs"
    using ex_encoded by blast
  have le: "gwei20 \<le> 100 * 10 ^ 9" by (simp add: gwei20_def)
  have st: "status (ex_receipt 0) \<noteq> 1" by (simp add: ex_receipt_def)
  note t1 = executeLiquidation_returns_result
      [of ex_config "ex_world gwei20 0 []" ex_liquidator ?calc "[]"]
  have a: "fst (executeLiquidation ex_config (ex_world gwei20 0 []) ex_liquidator ?calc [])
             = Inr (transactionFailed (ex_world gwei20 0 []) (ex_receipt 0))
           \<and> \<not> success (transactionFailed (ex_world gwei20 0 []) (ex_receipt 0))
           \<and> error (transactionFailed (ex_world gwei20 0 []) (ex_receipt 0))
               = Some ''Transaction failed''"
    using t1 enc ex_max_gas le st ex_world_fields(1,3,4) [of gwei20 0 "[]"] by blast
  note t2 = executeLiquidation_returns_result
      [of ex_config ex_world_rejecting ex_liquidator ?calc "[]"]
  have g: "getGasPrice ex_world_rejecting = Inr gwei20"
    and f: "flashLoan ex_world_rejecting (flashLoanCallOf ex_liquidator ?calc bs gwei20)
              = Inl (Error ''insufficient funds'')"
    by (simp_all add: ex_world_rejecting_def ex_world_def)
  have b: "fst (executeLiquidation ex_config ex_world_rejecting ex_liquidator ?calc [])
             = Inr (caughtError ex_world_rejecting (Error ''insufficient funds''))"
    using t2 enc ex_max_gas le g f by blast
  have c: "\<not> success (caughtError ex_world_rejecting (Error ''insufficient funds''))"
    "error (caughtError ex_world_rejecting (Error ''insufficient funds''))
       = Some ''insufficient funds''"
    by (simp_all add: caughtError_def)
  show ?thesis using st a b c by blast
qed

text \<open>
  Claim C5, as amended. When the gas price exceeds the ceiling, \<open>executeLiquidation\<close>
  returns the result \<open>Gas price too high\<close> with \<open>success = false\<close> and does not
  invoke \<open>pool.flashLoan\<close>. \<open>executeStrategy\<close> records that result like any other:
  it appends it to the history and sets \<open>lastExecutionTime\<close> to the time of the call.
\<close>

theorem gas_price_abort_is_recorded:
  assumes "encodeLiquidationParams best = Inr encoded"
    and "getGasPrice w = Inr g" and "parseUnitsGwei (maxGasPriceGwei cfg) = Inr m" and "g > m"
  shows "executeLiquidation cfg w liq best calls = (Inr (gasPriceTooHigh w), calls)
     \<and> \<not> success (gasPriceTooHigh w)
     \<and> error (gasPriceTooHigh w) = Some ''Gas price too high''
     \<and> (\<forall>(st :: Bot) ps cache'.
           \<not> dateNow w - lastExecutionTime (manager st) < executionCooldown (manager st)
           \<and> getLiquidatablePositions w = Inr ps \<and> ps \<noteq> []
           \<and> findBest cfg w (pairsOf ps) None (priceCache st) = (Inr (Some best), cache')
         \<longrightarrow> sent (executeStrategy cfg w liq st) = sent st
             \<and> lastExecutionTime (manager (executeStrategy cfg w liq st)) = dateNow w
             \<and> executionHistory (manager (executeStrategy cfg w liq st))
                 = executionHistory (manager st) @ [gasPriceTooHigh w])"
proof (intro conjI allI impI)
  show "\<not> success (gasPriceTooHigh w)" "error (gasPriceTooHigh w) = Some ''Gas price too high''"
    by (simp_all add: gasPriceTooHigh_def)
  show x: "executeLiquidation cfg w liq best calls = (Inr (gasPriceTooHigh w), calls)" for calls
    using assms by (rule executeLiquidation_gas)
  fix st :: Bot and ps cache'
  assume h: "\<not> dateNow w - lastExecutionTime (manager st) < executionCooldown (manager st)
           \<and> getLiquidatablePositions w = Inr ps \<and> ps \<noteq> []
           \<and> findBest cfg w (pairsOf ps) None (priceCache st) = (Inr (Some best), cache')"
  then have e: "executeStrategy cfg w liq st =
      st\<lparr> manager := recordExecution (dateNow w) (gasPriceTooHigh w) (manager st),
          priceCache := cache', sent := sent st \<rparr>"
    by (simp add: executeStrategy_def Let_def x)
  show "sent (executeStrategy cfg w liq st) = sent st"
    "lastExecutionTime (manager (executeStrategy cfg w liq st)) = dateNow w"
    "executionHistory (manager (executeStrategy cfg w liq st))
                 = executionHistory (manager st) @ [gasPriceTooHigh w]"
    by (simp_all add: e recordExecution_def)
qed

lemma ex_best_200:
  "fst (findBest ex_config (ex_world gwei200 1 [ex_target ex_hf_low 0])
          (pairsOf [ex_target ex_hf_low 0]) None Map.empty) = Inr (Some ex_estimate_200)"
  by code_simp

lemma ex_strategy_200:
  "sent (executeStrategy ex_config (ex_world gwei200 1 [ex_target ex_hf_low 0]) ex_liquidator
           (ex_bot 0)) = []"
  "lastExecutionTime (manager (executeStrategy ex_config
      (ex_world gwei200 1 [ex_target ex_hf_low 0]) ex_liquidator (ex_bot 0))) = 1700000000000"
  "executionHistory (manager (executeStrategy ex_config
      (ex_world gwei200 1 [ex_target ex_hf_low 0]) ex_liquidator (ex_bot 0)))
     = [gasPriceTooHigh (ex_world gwei200 1 [ex_target ex_hf_low 0])]"
  by code_simp+




theorem gas_price_abort_is_recorded_witness:
  "(\<exists>encoded. encodeLiquidationParams ex_estimate_200 = Inr encoded)
   \<and> getGasPrice (ex_world gwei200 1 [ex_target ex_hf_low 0]) = Inr gwei200
   \<and> parseUnitsGwei (maxGasPriceGwei ex_config) = Inr (100 * 10 ^ 9)
   \<and> gwei200 > 100 * 10 ^ 9
   \<and> fst (findBest ex_config (ex_world gwei200 1 [ex_target ex_hf_low 0])
            (pairsOf [ex_target ex_hf_low 0]) None (priceCache (ex_bot 0)))
       = Inr (Some ex_estimate_200)
   \<and> executeLiquidation ex_config (ex_world gwei200 1 [ex_target ex_hf_low 0]) ex_liquidator
         ex_estimate_200 []
       = (Inr (gasPriceTooHigh (ex_world gwei200 1 [ex_target ex_hf_low 0])), [])
   \<and> sent (executeStrategy ex_config (ex_world gwei200 1 [ex_target ex_hf_low 0])
              ex_liquidator (ex_bot 0)) = sent (ex_bot 0)
   \<and> lastExecutionTime (manager (executeStrategy ex_config
          (ex_world gwei200 1 [ex_target ex_hf_low 0]) ex_liquidator (ex_bot 0)))
       = dateNow (ex_world gwei200 1 [ex_target ex_hf_low 0])"
proof -
  let ?w = "ex_world gwei200 1 [ex_target ex_hf_low 0]"
  obtain bs where enc: "encodeLiquidationParams ex_estimate_200 = Inr bs"
    by (simp add: encodeLiquidationParams_def abi_encode_params_def abi_uint256_def
          ex_estimate_200_def ex_estimate_def)
  have gt: "gwei200 > 100 * 10 ^ 9" by (simp add: gwei200_def)
  have pc: "priceCache (ex_bot 0) = Map.empty" by (simp add: ex_bot_def)
  have cd: "\<not> dateNow ?w - lastExecutionTime (manager (ex_bot 0))
               < executionCooldown (manager (ex_bot 0))"
    by (simp add: ex_world_fields ex_bot_def ex_manager_def)
  have fb: "findBest ex_config ?w (pairsOf [ex_target ex_hf_low 0]) None (priceCache (ex_bot 0))
     = (Inr (Some ex_estimate_200),
        snd (findBest ex_config ?w (pairsOf [ex_target ex_hf_low 0]) None (priceCache (ex_bot 0))))"
    unfolding pc using ex_best_200 by (simp add: prod_eq_iff)
  note t = gas_price_abort_is_recorded [where liq = ex_liquidator and calls = "[]",
      OF enc ex_world_fields(1) ex_max_gas gt]
  have x: "executeLiquidation ex_config ?w ex_liquidator ex_estimate_200 []
             = (Inr (gasPriceTooHigh ?w), [])"
    using t by blast
  have ne: "[ex_target ex_hf_low 0] \<noteq> []" by simp
  have y: "sent (executeStrategy ex_config ?w ex_liquidator (ex_bot 0)) = sent (ex_bot 0)
           \<and> lastExecutionTime (manager (executeStrategy ex_config ?w ex_liquidator (ex_bot 0)))
               = dateNow ?w"
    using t cd ex_world_fields(2) [of gwei200 1 "[ex_target ex_hf_low 0]"] ne fb by blast
  show ?thesis
    using enc ex_world_fields(1) [of gwei200 1 "[ex_target ex_hf_low 0]"] ex_max_gas gt
      ex_best_200 pc x y by simp
qed

text \<open>
  The claim as written leaves the cooldown timer unchanged: at 200 gwei against a ceiling
  of 100 gwei nothing is submitted, the result is recorded, and \<open>lastExecutionTime\<close>
  goes from 0 to the time of the call.
\<close>

theorem gas_price_abort_counterexample:
  "getGasPrice (ex_world gwei200 1 [ex_target ex_hf_low 0]) = Inr gwei200
   \<and> parseUnitsGwei (maxGasPriceGwei ex_config) = Inr (100 * 10 ^ 9)
   \<and> gwei200 > 100 * 10 ^ 9
   \<and> executionHistory (manager (executeStrategy ex_config
          (ex_world gwei200 1 [ex_target ex_hf_low 0]) ex_liquidator (ex_bot 0)))
       = [gasPriceTooHigh (ex_world gwei200 1 [ex_target ex_hf_low 0])]
   \<and> sent (executeStrategy ex_config (ex_world gwei200 1 [ex_target ex_hf_low 0])
              ex_liquidator (ex_bot 0)) = []
   \<and> lastExecutionTime (manager (ex_bot 0)) = 0
   \<and> lastExecutionTime (manager (executeStrategy ex_config
          (ex_world gwei200 1 [ex_target ex_hf_low 0]) ex_liquidator (ex_bot 0)))
       = 1700000000000"
proof -
  have gt: "gwei200 > 100 * 10 ^ 9" by (simp add: gwei200_def)
  have l0: "lastExecutionTime (manager (ex_bot 0)) = 0" by (simp add: ex_bot_def ex_manager_def)
  show ?thesis
    using ex_world_fields(1) [of gwei200 1 "[ex_target ex_hf_low 0]"] ex_max_gas gt
      ex_strategy_200 l0 by simp
qed






lemma array_insert_insort_key:
  "array_insert (\<lambda>a b. f b - f a) x ys = insort_key (\<lambda>a. - f a) x ys"
  by (induction ys) simp_all

lemma array_sort_sort_key:
  "array_sort (\<lambda>a b. f b - f a) xs = sort_key (\<lambda>a. - f a) xs"
  by (simp add: array_sort_def sort_key_def array_insert_insort_key [abs_def])

lemma rank_sort_key:
  "rankOpportunities xs = sort_key (\<lambda>a. - executionPriority a) xs"
  by (simp add: rankOpportunities_def array_sort_sort_key)

lemma rank_sorted:
  "sorted_wrt (\<lambda>a b. executionPriority a \<ge> executionPriority b) (rankOpportunities xs)"
proof -
  have "sorted (map (\<lambda>a. - executionPriority a) (rankOpportunities xs))"
    by (simp add: rank_sort_key)
  then show ?thesis by (simp add: sorted_map)
qed

lemma rank_stable:
  "filter (\<lambda>x. executionPriority x = k) (rankOpportunities xs)
     = filter (\<lambda>x. executionPriority x = k) xs"
  using sort_key_stable [of "\<lambda>a. - executionPriority a" "- k" xs]
  by (simp add: rank_sort_key)

text \<open>
  Claim C7. The ranking step returns a permutation of its input, in descending order of
  the (already boosted) \<open>executionPriority\<close>, in which the estimates of any one score
  keep the order in which they were produced. The list returned by the E-Mode scan is
  in that order.
\<close>

theorem ranking_sorted_stable_permutation:
  "mset (rankOpportunities xs) = mset xs
   \<and> sorted_wrt (\<lambda>a b. executionPriority a \<ge> executionPriority b) (rankOpportunities xs)
   \<and> (\<forall>k. filter (\<lambda>x. executionPriority x = k) (rankOpportunities xs)
            = filter (\<lambda>x. executionPriority x = k) xs)
   \<and> sorted_wrt (\<lambda>a b. executionPriority a \<ge> executionPriority b)
        (fst (eModeScan cfg w strategy cache))"
proof (intro conjI allI)
  show "mset (rankOpportunities xs) = mset xs" by (simp add: rank_sort_key)
  show "sorted_wrt (\<lambda>a b. executionPriority a \<ge> executionPriority b) (rankOpportunities xs)"
    by (rule rank_sorted)
  show "filter (\<lambda>x. executionPriority x = k) (rankOpportunities xs)
            = filter (\<lambda>x. executionPriority x = k) xs" for k
    by (rule rank_stable)
  show "sorted_wrt (\<lambda>a b. executionPriority a \<ge> executionPriority b)
        (fst (eModeScan cfg w strategy cache))"
    by (simp add: eModeScan_def Let_def rank_sorted split: sum.splits prod.splits)
qed

lemma ex_rank:
  "rankOpportunities [ex_scored 1 1, ex_scored 2 3, ex_scored 3 1]
     = [ex_scored 2 3, ex_scored 1 1, ex_scored 3 1]"
  by code_simp

theorem ranking_sorted_stable_permutation_witness:
  "rankOpportunities [ex_scored 1 1, ex_scored 2 3, ex_scored 3 1]
     = [ex_scored 2 3, ex_scored 1 1, ex_scored 3 1]
   \<and> mset [ex_scored 2 3, ex_scored 1 1, ex_scored 3 1]
       = mset [ex_scored 1 1, ex_scored 2 3, ex_scored 3 1]
   \<and> filter (\<lambda>x. executionPriority x = 1) [ex_scored 2 3, ex_scored 1 1, ex_scored 3 1]
       = filter (\<lambda>x. executionPriority x = 1) [ex_scored 1 1, ex_scored 2 3, ex_scored 3 1]"
  using ranking_sorted_stable_permutation
    [of "[ex_scored 1 1, ex_scored 2 3, ex_scored 3 1]" ex_config "ex_world gwei20 1 []"
        "\<lparr> isEnabled = True, priorityMultiplier = 12 / 10 \<rparr>" Map.empty]
  by (simp only: ex_rank)

lemma length_be_bytes: "length (be_bytes k n) = k"
  by (induction k arbitrary: n) simp_all

lemma be_int_snoc: "be_int (bs @ [b]) = be_int bs * 256 + uint b"
  by (simp add: be_int_def)

lemma be_int_be_bytes: "0 \<le> n \<Longrightarrow> be_int (be_bytes k n) = n mod 256 ^ k"
proof (induction k arbitrary: n)
  case 0
  show ?case by (simp add: be_int_def)
next
  case (Suc k)
  have nn: "0 \<le> n div 256" using Suc.prems by (simp add: pos_imp_zdiv_nonneg_iff)
  have low: "uint (word_of_int n :: 8 word) = n mod 256"
    by (simp add: uint_word_of_int)
  have "be_int (be_bytes (Suc k) n) = (n div 256) mod 256 ^ k * 256 + n mod 256"
    by (simp add: be_int_snoc Suc.IH [OF nn] low)
  also have "\<dots> = n mod 256 ^ Suc k"
  proof -
    have "(0 :: int) \<le> 256 ^ k" by simp
    from zmod_zmult2_eq [OF this, of n 256] show ?thesis by simp
  qed
  finally show ?case .
qed

lemma be_int_be_bytes_small:
  assumes "0 \<le> n" and "n < 2 ^ 256"
  shows "be_int (be_bytes 32 n) = n"
proof -
  have "(256 :: int) ^ 32 = 2 ^ 256" by simp
  then show ?thesis using assms by (simp add: be_int_be_bytes)
qed

lemma be_int_address: "be_int (abi_address a) = uint a"
proof -
  have "uint a < 2 ^ 160" using uint_lt2p [of a] by simp
  also have "(2 :: int) ^ 160 < 2 ^ 256" by simp
  finally show ?thesis by (simp add: abi_address_def be_int_be_bytes_small)
qed

lemma be_int_bool: "be_int (abi_bool b) = (if b then 1 else 0)"
  by (simp add: abi_bool_def be_int_be_bytes_small)

lemma take_drop_words:
  assumes "length a = 32" "length b = 32" "length c = 32" "length d = 32" "length e = 32"
  shows "take 32 (a @ b @ c @ d @ e) = a"
    and "take 32 (drop 32 (a @ b @ c @ d @ e)) = b"
    and "take 32 (drop 64 (a @ b @ c @ d @ e)) = c"
    and "take 32 (drop 96 (a @ b @ c @ d @ e)) = d"
    and "take 32 (drop 128 (a @ b @ c @ d @ e)) = e"
  using assms by simp_all

lemma abi_round_trip:
  assumes "abi_encode_params c d u amt b = Inr bs"
  shows "abi_decode_params bs = Some (c, d, u, word_of_int amt, b)"
    and "uint (word_of_int amt :: 256 word) = amt"
proof -
  from assms have range: "0 \<le> amt" "amt < 2 ^ 256"
    and bs: "bs = abi_address c @ abi_address d @ abi_address u @ be_bytes 32 amt @ abi_bool b"
    by (auto simp: abi_encode_params_def abi_uint256_def split: if_splits)
  have len: "length (abi_address c) = 32" "length (abi_address d) = 32"
    "length (abi_address u) = 32" "length (be_bytes 32 amt) = 32" "length (abi_bool b) = 32"
    by (simp_all add: abi_address_def abi_bool_def length_be_bytes)
  note w = take_drop_words [OF len]
  have small: "uint c < 2 ^ 160" "uint d < 2 ^ 160" "uint u < 2 ^ 160"
    using uint_lt2p [of c] uint_lt2p [of d] uint_lt2p [of u] by simp_all
  have l: "\<not> length bs < 160" by (simp add: bs len)
  have d0: "be_int (take 32 bs) = uint c"
    unfolding bs w(1) by (rule be_int_address)
  have d1: "be_int (take 32 (drop 32 bs)) = uint d"
    unfolding bs w(2) by (rule be_int_address)
  have d2: "be_int (take 32 (drop 64 bs)) = uint u"
    unfolding bs w(3) by (rule be_int_address)
  have d3: "be_int (take 32 (drop 96 bs)) = amt"
    unfolding bs w(4) by (rule be_int_be_bytes_small [OF range])
  have d4: "be_int (take 32 (drop 128 bs)) = (if b then 1 else 0)"
    unfolding bs w(5) by (rule be_int_bool)
  show "abi_decode_params bs = Some (c, d, u, word_of_int amt, b)"
    using l small by (simp add: abi_decode_params_def Let_def d0 d1 d2 d3 d4)
  show "uint (word_of_int amt :: 256 word) = amt"
    using range by (simp add: uint_word_of_int)
qed

text \<open>
  Claim C8. Decoding, as \<open>executeOperation\<close> does, what the execution path encoded
  gives back the collateral asset, the debt asset, the user, the amount and the flag;
  this holds for every five-tuple that the coder accepts, with either value of the flag,
  and the coder accepts every amount of the \<open>uint256\<close> range.
\<close>

theorem liquidation_params_round_trip:
  "(\<forall>bs. abi_encode_params c d u amt b = Inr bs
      \<longrightarrow> abi_decode_params bs = Some (c, d, u, word_of_int amt, b)
          \<and> uint (word_of_int amt :: 256 word) = amt)
   \<and> (\<forall>bs. encodeLiquidationParams calc = Inr bs
      \<longrightarrow> abi_decode_params bs
            = Some (address (collateralAsset calc), address (debtAsset calc),
                    user (target calc), word_of_int (debtToCover calc), False)
          \<and> uint (word_of_int (debtToCover calc) :: 256 word) = debtToCover calc)
   \<and> (0 \<le> amt \<and> amt < 2 ^ 256 \<longrightarrow> (\<exists>bs. abi_encode_params c d u amt b = Inr bs))"
  by (auto simp: encodeLiquidationParams_def abi_round_trip)
     (simp add: abi_encode_params_def abi_uint256_def)

theorem liquidation_params_round_trip_witness:
  "\<exists>bs. encodeLiquidationParams (ex_estimate ex_hf_low 0 ex_coll) = Inr bs
        \<and> length bs = 160
        \<and> abi_decode_params bs = Some (2, 1, 7, 1000000000, False)"
proof -
  let ?calc = "ex_estimate ex_hf_low 0 ex_coll"
  obtain bs where enc: "encodeLiquidationParams ?calc = Inr bs"
    by (simp add: encodeLiquidationParams_def abi_encode_params_def abi_uint256_def
          ex_estimate_def)
  have f: "address (collateralAsset ?calc) = 2" "address (debtAsset ?calc) = 1"
    "user (target ?calc) = 7" "debtToCover ?calc = 1000000000"
    by (simp_all add: ex_estimate_def ex_coll_def ex_debt_def ex_target_def)
  have len: "length bs = 160"
    using enc
    by (auto simp: encodeLiquidationParams_def abi_encode_params_def abi_uint256_def
          abi_address_def abi_bool_def length_be_bytes split: if_splits)
  from liquidation_params_round_trip [of _ _ _ _ _ ?calc] enc
  have "abi_decode_params bs
            = Some (address (collateralAsset ?calc), address (debtAsset ?calc),
                    user (target ?calc), word_of_int (debtToCover ?calc), False)"
    by blast
  then have "abi_decode_params bs = Some (2, 1, 7, 1000000000, False)"
    by (simp add: f)
  with enc len show ?thesis by blast
qed

end
